theory Spec2Isabelle
  imports Main
begin

section \<open>The task progress tracker (script.js)\<close>

text \<open>
  A shallow embedding of \<^verbatim>\<open>src/script.js\<close>. The script keeps one global array
  \<^verbatim>\<open>tasks\<close> of task objects and changes it from event handlers. Every handler is
  modelled as a function from its inputs (the form fields it reads, the answers of
  \<^verbatim>\<open>confirm\<close>, the clock readings) and the array before the call to an outcome and
  the array after it.

  Modelling decisions:
  \<^item> A JavaScript value that \<^verbatim>\<open>JSON.parse\<close> can produce is a \<open>json\<close>. Numbers are the
    mathematical integers: the numeric fields of a task are integers, and fractions, the
    rounding of doubles above \<open>2^53\<close> and \<open>NaN\<close> inside a stored value are not represented.
    \<open>NaN\<close> as the result of \<^verbatim>\<open>parseInt\<close> is \<open>None\<close>.
  \<^item> An object is the list of its own properties in order; reading a property that is
    absent gives \<open>None\<close> (\<^verbatim>\<open>undefined\<close>).
  \<^item> The elements of \<^verbatim>\<open>tasks\<close> are objects (\<open>obj\<close>): \<^verbatim>\<open>addTask\<close> pushes an object
    literal, and the check of \<^verbatim>\<open>handleFileImport\<close> admits only elements with an
    \<^verbatim>\<open>id\<close> and a \<^verbatim>\<open>name\<close>, which only objects have. Each slot of the array is a
    value of its own; two slots sharing one object (which arises only by reordering
    while two records carry the same id) are not represented.
  \<^item> Strings are lists of 8-bit code units.
  \<^item> The form fields are strings, as \<^verbatim>\<open>.value\<close> gives them; \<^verbatim>\<open>trim\<close>, \<^verbatim>\<open>parseInt\<close>
    and \<^verbatim>\<open>replace\<close> are modelled after the language standard.
  \<^item> \<^verbatim>\<open>JSON.parse\<close> and \<^verbatim>\<open>JSON.stringify\<close> belong to the platform and are
    parameters: \<open>JSON_parse s = None\<close> when parsing \<open>s\<close> throws a SyntaxError.
  \<^item> \<^verbatim>\<open>saveTasks\<close>, \<^verbatim>\<open>renderTasks\<close>, the modal handling and \<^verbatim>\<open>console.log\<close> do not
    change \<^verbatim>\<open>tasks\<close> and are left out.
\<close>

subsection \<open>Values\<close>

datatype json =
    JNull
  | JBool bool
  | JNum int
  | JStr string
  | JArr "json list"
  | JObj "(string \<times> json) list"

type_synonym obj = "(string \<times> json) list"

text \<open>\<^verbatim>\<open>o.k\<close>: the value of the own property \<open>k\<close>, \<open>None\<close> for \<^verbatim>\<open>undefined\<close>.\<close>

definition get_prop :: "obj \<Rightarrow> string \<Rightarrow> json option" where
  "get_prop ob k = map_of ob k"

text \<open>\<^verbatim>\<open>o.k = v\<close>: an existing property keeps its place, a new one is added last.\<close>

fun set_prop :: "string \<Rightarrow> json \<Rightarrow> obj \<Rightarrow> obj" where
  "set_prop k v [] = [(k, v)]"
| "set_prop k v (p # ps) = (if fst p = k then (k, v) # ps else p # set_prop k v ps)"

text \<open>ToBoolean on a value read from a parsed object.\<close>

fun truthy :: "json option \<Rightarrow> bool" where
  "truthy None = False"
| "truthy (Some JNull) = False"
| "truthy (Some (JBool b)) = b"
| "truthy (Some (JNum n)) = (n \<noteq> 0)"
| "truthy (Some (JStr s)) = (s \<noteq> [])"
| "truthy (Some (JArr xs)) = True"
| "truthy (Some (JObj fs)) = True"

text \<open>\<^verbatim>\<open>typeof v === 'number'\<close>.\<close>

fun typeof_number :: "json option \<Rightarrow> bool" where
  "typeof_number (Some (JNum n)) = True"
| "typeof_number _ = False"

subsection \<open>String builtins\<close>

text \<open>The white space that \<^verbatim>\<open>trim\<close> and \<^verbatim>\<open>parseInt\<close> strip, among 8-bit code units:
  TAB, LF, VT, FF, CR, SP and NBSP.\<close>

definition is_white_space :: "char \<Rightarrow> bool" where
  "is_white_space c = ((of_char c :: nat) \<in> {9, 10, 11, 12, 13, 32, 160})"

definition trim :: "string \<Rightarrow> string" where
  "trim s = rev (dropWhile is_white_space (rev (dropWhile is_white_space s)))"

text \<open>The value of a digit in the given radix, if it is one.\<close>

definition digit_value :: "nat \<Rightarrow> char \<Rightarrow> nat option" where
  "digit_value radix c =
     (let n = (of_char c :: nat);
          v = (if 48 \<le> n \<and> n \<le> 57 then Some (n - 48)
               else if 97 \<le> n \<and> n \<le> 122 then Some (n - 87)
               else if 65 \<le> n \<and> n \<le> 90 then Some (n - 55)
               else None)
      in case v of None \<Rightarrow> None | Some d \<Rightarrow> if d < radix then Some d else None)"

definition digits_value :: "nat \<Rightarrow> string \<Rightarrow> int" where
  "digits_value radix ds =
     foldl (\<lambda>acc c. acc * int radix + (case digit_value radix c of Some d \<Rightarrow> int d | None \<Rightarrow> 0))
       0 ds"

text \<open>
  \<^verbatim>\<open>parseInt(s)\<close> with no radix: leading white space is skipped, then an optional sign,
  then an optional \<^verbatim>\<open>0x\<close> or \<^verbatim>\<open>0X\<close> (radix 16, otherwise 10), then the longest run of
  digits; whatever follows is ignored. No digit at all gives \<open>NaN\<close>, here \<open>None\<close>.
\<close>

definition parseInt :: "string \<Rightarrow> int option" where
  "parseInt s =
     (let s1 = dropWhile is_white_space s;
          negative = (case s1 of c # _ \<Rightarrow> c = CHR ''-'' | [] \<Rightarrow> False);
          s2 = (case s1 of c # r \<Rightarrow> if c = CHR ''-'' \<or> c = CHR ''+'' then r else s1 | [] \<Rightarrow> s1);
          hex = (take 2 s2 = ''0x'' \<or> take 2 s2 = ''0X'');
          radix = (if hex then 16 else 10);
          s3 = (if hex then drop 2 s2 else s2);
          z = takeWhile (\<lambda>c. digit_value radix c \<noteq> None) s3
      in if z = [] then None
         else Some ((if negative then - 1 else 1) * digits_value radix z))"

text \<open>\<^verbatim>\<open>s.replace(pat, rep)\<close> with a string pattern: the first occurrence only.\<close>

fun replace :: "string \<Rightarrow> string \<Rightarrow> string \<Rightarrow> string" where
  "replace pat rep [] = (if pat = [] then rep else [])"
| "replace pat rep (c # cs) =
     (if take (length pat) (c # cs) = pat then rep @ drop (length pat) (c # cs)
      else c # replace pat rep cs)"

subsection \<open>Array builtins\<close>

text \<open>\<^verbatim>\<open>xs.findIndex(p)\<close>, with \<open>None\<close> for \<open>-1\<close>.\<close>

fun findIndex :: "('a \<Rightarrow> bool) \<Rightarrow> 'a list \<Rightarrow> nat option" where
  "findIndex p [] = None"
| "findIndex p (x # xs) =
     (if p x then Some 0 else (case findIndex p xs of None \<Rightarrow> None | Some i \<Rightarrow> Some (Suc i)))"

text \<open>The callback \<^verbatim>\<open>t => t.id === taskId\<close>, for a number \<open>taskId\<close>.\<close>

definition has_id :: "int \<Rightarrow> obj \<Rightarrow> bool" where
  "has_id taskId t = (get_prop t ''id'' = Some (JNum taskId))"

subsection \<open>Outcomes\<close>

text \<open>The alerts that report a refusal, named for their messages.\<close>

datatype alert =
    InvalidTask       \<comment> \<open>Please enter a valid task name and target value (minimum 1)\<close>
  | InvalidEdit       \<comment> \<open>Please enter valid data. Target must be at least 1, ...\<close>
  | InvalidFormat     \<comment> \<open>Invalid data format. Please check your import file.\<close>
  | NoValidTasks      \<comment> \<open>No valid tasks found in the import file.\<close>
  | ImportReadError   \<comment> \<open>Error reading import file. Please check the file format.\<close>

datatype outcome =
    Done              \<comment> \<open>the handler ran to its end\<close>
  | Refused alert     \<comment> \<open>an alert was shown and the handler returned\<close>
  | Cancelled         \<comment> \<open>the user answered no to \<^verbatim>\<open>confirm\<close>\<close>
  | Ignored           \<comment> \<open>nothing to do: no task with the id, no file, no task being edited\<close>

datatype exn = SyntaxError | TypeError

subsection \<open>addTask\<close>

definition addTask ::
  "string \<Rightarrow> string \<Rightarrow> int \<Rightarrow> string \<Rightarrow> string \<Rightarrow> obj list \<Rightarrow> outcome \<times> obj list" where
  "addTask nameField targetField dateNow createdAt lastModified tasks =
     (let taskName = trim nameField in
      case parseInt targetField of
        None \<Rightarrow> (Refused InvalidTask, tasks)
      | Some taskTarget \<Rightarrow>
          if taskName = [] \<or> taskTarget = 0 \<or> taskTarget < 1 then (Refused InvalidTask, tasks)
          else (Done, tasks @
                 [[(''id'', JNum dateNow),
                   (''name'', JStr taskName),
                   (''target'', JNum taskTarget),
                   (''current'', JNum 0),
                   (''createdAt'', JStr createdAt),
                   (''lastModified'', JStr lastModified)]]))"

subsection \<open>updateTask\<close>


subsection \<open>updateProgress\<close>

text \<open>
  The result is \<open>None\<close> when the task found has a \<^verbatim>\<open>current\<close> or a \<^verbatim>\<open>target\<close> that is not a
  number: JavaScript then coerces the operands of \<^verbatim>\<open>+\<close>, \<^verbatim>\<open>Math.min\<close> and
  \<^verbatim>\<open>Math.max\<close>, which is outside this model. \<^verbatim>\<open>addTask\<close>, \<^verbatim>\<open>updateTask\<close>,
  \<^verbatim>\<open>updateProgress\<close> and \<^verbatim>\<open>handleFileImport\<close> only ever store numbers there.
\<close>

definition updateProgress :: "int \<Rightarrow> int \<Rightarrow> string \<Rightarrow> obj list \<Rightarrow> obj list option" where
  "updateProgress taskId change now tasks =
     (case findIndex (has_id taskId) tasks of
        None \<Rightarrow> Some tasks
      | Some i \<Rightarrow>
          (case (get_prop (tasks ! i) ''current'', get_prop (tasks ! i) ''target'') of
             (Some (JNum current), Some (JNum target)) \<Rightarrow>
               (let newValue = current + change in
                Some (tasks[i :=
                        set_prop ''lastModified'' (JStr now)
                          (set_prop ''current'' (JNum (max 0 (min newValue target))) (tasks ! i))]))
           | _ \<Rightarrow> None))"


text \<open>The invariant of a task record: \<open>0 \<le> current \<le> target\<close>, both numbers.\<close>

definition in_range :: "obj \<Rightarrow> bool" where
  "in_range t =
     (case (get_prop t ''current'', get_prop t ''target'') of
        (Some (JNum current), Some (JNum target)) \<Rightarrow> 0 \<le> current \<and> current \<le> target
      | _ \<Rightarrow> False)"

subsection \<open>deleteTask\<close>

definition deleteTask :: "bool \<Rightarrow> int \<Rightarrow> obj list \<Rightarrow> outcome \<times> obj list" where
  "deleteTask confirmed taskId tasks =
     (if confirmed then
        (case findIndex (has_id taskId) tasks of
           None \<Rightarrow> (Ignored, tasks)
         | Some taskIndex \<Rightarrow> (Done, take taskIndex tasks @ drop (Suc taskIndex) tasks))
      else (Cancelled, tasks))"

subsection \<open>The drag-and-drop handler of initializeSortable\<close>

text \<open>The task id that a card names: \<^verbatim>\<open>parseInt(card.id.replace('task-', ''))\<close>.\<close>

definition card_taskId :: "string \<Rightarrow> int option" where
  "card_taskId cardId = parseInt (replace ''task-'' [] cardId)"




subsection \<open>exportData and handleFileImport\<close>

definition exportData :: "(json \<Rightarrow> string) \<Rightarrow> obj list \<Rightarrow> string" where
  "exportData JSON_stringify tasks = JSON_stringify (JArr (map JObj tasks))"

text \<open>
  The callback of \<^verbatim>\<open>every\<close>. Reading a property of \<^verbatim>\<open>null\<close> throws a TypeError; a
  boolean, a number, a string or an array has no property \<^verbatim>\<open>id\<close>.
\<close>

fun isValid_task :: "json \<Rightarrow> exn + bool" where
  "isValid_task JNull = Inl TypeError"
| "isValid_task (JObj fs) =
     Inr (truthy (get_prop fs ''id'') \<and> truthy (get_prop fs ''name'') \<and>
          typeof_number (get_prop fs ''target'') \<and> typeof_number (get_prop fs ''current''))"
| "isValid_task _ = Inr False"

text \<open>\<^verbatim>\<open>importedTasks.every(...)\<close>: stops at the first element that fails or throws.\<close>

fun every_isValid :: "json list \<Rightarrow> exn + bool" where
  "every_isValid [] = Inr True"
| "every_isValid (task # rest) =
     (case isValid_task task of
        Inl e \<Rightarrow> Inl e
      | Inr valid \<Rightarrow> if valid then every_isValid rest else Inr False)"

text \<open>The own properties of an array element that passed the check (an object).\<close>

fun properties :: "json \<Rightarrow> obj" where
  "properties (JObj fs) = fs"
| "properties _ = []"

text \<open>\<open>file\<close> is the text of the chosen file, \<open>None\<close> when no file was chosen; \<open>confirmed\<close> is
  the answer to \<^verbatim>\<open>confirm\<close>.\<close>

definition handleFileImport ::
  "(string \<Rightarrow> json option) \<Rightarrow> bool \<Rightarrow> string option \<Rightarrow> obj list \<Rightarrow> outcome \<times> obj list" where
  "handleFileImport JSON_parse confirmed file tasks =
     (case file of
        None \<Rightarrow> (Ignored, tasks)
      | Some contents \<Rightarrow>
          (case JSON_parse contents of
             None \<Rightarrow> (Refused ImportReadError, tasks)
           | Some (JArr importedTasks) \<Rightarrow>
               if length importedTasks > 0 then
                 (case every_isValid importedTasks of
                    Inl e \<Rightarrow> (Refused ImportReadError, tasks)
                  | Inr isValid \<Rightarrow>
                      if isValid then
                        (if confirmed then (Done, map properties importedTasks)
                         else (Cancelled, tasks))
                      else (Refused InvalidFormat, tasks))
               else (Refused NoValidTasks, tasks)
           | Some _ \<Rightarrow> (Refused NoValidTasks, tasks)))"

text \<open>The check of an import in the words of the specification: an object with a truthy
  id, a truthy name, a numeric target and a numeric current.\<close>

definition importable :: "obj \<Rightarrow> bool" where
  "importable t =
     (truthy (get_prop t ''id'') \<and> truthy (get_prop t ''name'') \<and>
      typeof_number (get_prop t ''target'') \<and> typeof_number (get_prop t ''current''))"

fun importable_json :: "json \<Rightarrow> bool" where
  "importable_json (JObj fs) = importable fs"
| "importable_json _ = False"

definition acceptable :: "json option \<Rightarrow> bool" where
  "acceptable parsed =
     (case parsed of
        Some (JArr candidates) \<Rightarrow> candidates \<noteq> [] \<and> list_all importable_json candidates
      | _ \<Rightarrow> False)"

subsection \<open>Loading at page load\<close>

text \<open>
  Line 4, \<^verbatim>\<open>let tasks = JSON.parse(localStorage.getItem('tasks')) || []\<close>, outside any
  \<^verbatim>\<open>try\<close>. \<open>stored\<close> is what \<^verbatim>\<open>getItem\<close> returns, \<open>None\<close> for \<^verbatim>\<open>null\<close>, which
  \<^verbatim>\<open>JSON.parse\<close> reads as the text \<^verbatim>\<open>null\<close>. The global may hold any value.
\<close>

definition initial_tasks :: "(string \<Rightarrow> json option) \<Rightarrow> string option \<Rightarrow> exn + json" where
  "initial_tasks JSON_parse stored =
     (case JSON_parse (case stored of None \<Rightarrow> ''null'' | Some s \<Rightarrow> s) of
        None \<Rightarrow> Inl SyntaxError
      | Some v \<Rightarrow> Inr (if truthy (Some v) then v else JArr []))"

text \<open>\<^verbatim>\<open>loadTasks\<close>: the \<^verbatim>\<open>catch\<close> resets the global to the empty array.\<close>

definition loadTasks :: "(string \<Rightarrow> json option) \<Rightarrow> string option \<Rightarrow> json \<Rightarrow> json" where
  "loadTasks JSON_parse stored tasks =
     (case stored of
        None \<Rightarrow> tasks
      | Some savedTasks \<Rightarrow>
          if savedTasks \<noteq> [] then
            (case JSON_parse savedTasks of
               None \<Rightarrow> JArr []
             | Some v \<Rightarrow> v)
          else tasks)"

text \<open>The script from its first line to its last: line 4, then the call of
  \<^verbatim>\<open>loadTasks\<close> on line 420. An exception on line 4 ends the script there.\<close>

definition page_load :: "(string \<Rightarrow> json option) \<Rightarrow> string option \<Rightarrow> exn + json" where
  "page_load JSON_parse stored =
     (case initial_tasks JSON_parse stored of
        Inl e \<Rightarrow> Inl e
      | Inr tasks \<Rightarrow> Inr (loadTasks JSON_parse stored tasks))"

subsection \<open>Sessions of creations and deletions\<close>

datatype event =
    Create string string int string string
      \<comment> \<open>name field, target field, \<^verbatim>\<open>Date.now()\<close>, the two ISO time stamps\<close>
  | Delete bool int
      \<comment> \<open>the answer to \<^verbatim>\<open>confirm\<close>, the task id\<close>

text \<open>The id of the record that a successful \<^verbatim>\<open>addTask\<close> pushed.\<close>

definition pushed_id :: "obj list \<Rightarrow> int list" where
  "pushed_id tasks =
     (if tasks = [] then []
      else (case get_prop (last tasks) ''id'' of Some (JNum n) \<Rightarrow> [n] | _ \<Rightarrow> []))"

text \<open>Runs the events in order; returns the array and the ids issued, oldest first.\<close>

fun session :: "event list \<Rightarrow> obj list \<Rightarrow> int list \<Rightarrow> obj list \<times> int list" where
  "session [] tasks issued = (tasks, issued)"
| "session (Create nameField targetField dateNow createdAt lastModified # events) tasks issued =
     (case addTask nameField targetField dateNow createdAt lastModified tasks of
        (Done, tasks') \<Rightarrow> session events tasks' (issued @ pushed_id tasks')
      | (_, tasks') \<Rightarrow> session events tasks' issued)"
| "session (Delete confirmed taskId # events) tasks issued =
     session events (snd (deleteTask confirmed taskId tasks)) issued"

text \<open>The clock readings of the creations of a session, in order.\<close>

fun clock_readings :: "event list \<Rightarrow> int list" where
  "clock_readings [] = []"
| "clock_readings (Create nameField targetField dateNow createdAt lastModified # events) =
     dateNow # clock_readings events"
| "clock_readings (Delete confirmed taskId # events) = clock_readings events"

subsection \<open>The validation rules in the words of the specification\<close>



section \<open>Properties\<close>

subsection \<open>Evaluation and basic facts\<close>

lemmas builtins =
  parseInt_def is_white_space_def digit_value_def digits_value_def trim_def card_taskId_def



lemma findIndex_None: "findIndex p xs = None \<longleftrightarrow> (\<forall>x\<in>set xs. \<not> p x)"
  by (induction xs) (auto split: option.splits)


subsection \<open>updateProgress\<close>


lemma updateProgress_absent:
  "findIndex (has_id taskId) tasks = None \<Longrightarrow> updateProgress taskId change now tasks = Some tasks"
  by (simp add: updateProgress_def)









subsection \<open>Ids that are absent\<close>

text \<open>
  Claim C8. When no record of the array has the id, \<^verbatim>\<open>updateProgress\<close> returns the
  array as it was, and so does \<^verbatim>\<open>deleteTask\<close>, whether the user confirms the deletion
  or not; neither shows an alert nor throws.
\<close>

theorem absent_id_is_noop:
  assumes "\<forall>t\<in>set tasks. \<not> has_id taskId t"
  shows "updateProgress taskId change now tasks = Some tasks \<and>
         deleteTask True taskId tasks = (Ignored, tasks) \<and>
         deleteTask False taskId tasks = (Cancelled, tasks)"
proof -
  from assms have "findIndex (has_id taskId) tasks = None"
    by (simp add: findIndex_None)
  then show ?thesis
    by (simp add: updateProgress_absent deleteTask_def)
qed

theorem absent_id_is_noop_witness:
  "updateProgress 3 1 ''now''
     [[(''id'', JNum 1), (''current'', JNum 0), (''target'', JNum 5)],
      [(''id'', JStr ''3''), (''current'', JNum 0), (''target'', JNum 5)]] =
   Some [[(''id'', JNum 1), (''current'', JNum 0), (''target'', JNum 5)],
         [(''id'', JStr ''3''), (''current'', JNum 0), (''target'', JNum 5)]] \<and>
   deleteTask True 3
     [[(''id'', JNum 1), (''current'', JNum 0), (''target'', JNum 5)],
      [(''id'', JStr ''3''), (''current'', JNum 0), (''target'', JNum 5)]] =
   (Ignored, [[(''id'', JNum 1), (''current'', JNum 0), (''target'', JNum 5)],
              [(''id'', JStr ''3''), (''current'', JNum 0), (''target'', JNum 5)]])"
  using absent_id_is_noop
    [of "[[(''id'', JNum 1), (''current'', JNum 0), (''target'', JNum 5)],
          [(''id'', JStr ''3''), (''current'', JNum 0), (''target'', JNum 5)]]" 3 1 "''now''"]
  by (simp add: has_id_def get_prop_def)

subsection \<open>addTask and updateTask\<close>

lemma addTask_pushes_importable:
  "addTask nameField targetField dateNow createdAt lastModified tasks = (Done, tasks') \<Longrightarrow>
     dateNow \<noteq> 0 \<Longrightarrow> tasks' \<noteq> [] \<and> importable (last tasks') \<and> in_range (last tasks')"
  by (cases "parseInt targetField")
     (auto simp: addTask_def importable_def in_range_def get_prop_def Let_def split: if_splits)





subsection \<open>handleFileImport and exportData\<close>

lemma isValid_task_iff: "isValid_task j = Inr True \<longleftrightarrow> importable_json j"
  by (cases j) (simp_all add: importable_def)

lemma every_isValid_iff: "every_isValid xs = Inr True \<longleftrightarrow> list_all importable_json xs"
proof (induction xs)
  case Nil
  then show ?case by simp
next
  case (Cons x xs)
  show ?case
  proof (cases "isValid_task x")
    case (Inl e)
    then have "\<not> importable_json x" using isValid_task_iff [of x] by simp
    with Inl show ?thesis by simp
  next
    case (Inr b)
    with Cons.IH isValid_task_iff [of x] show ?thesis by (cases b) simp_all
  qed
qed

lemma properties_of_importable:
  "list_all importable_json xs \<Longrightarrow> map JObj (map properties xs) = xs"
proof (induction xs)
  case Nil
  then show ?case by simp
next
  case (Cons x xs)
  then show ?case by (cases x) simp_all
qed

lemma importable_json_JObj: "list_all importable_json (map JObj tasks) = list_all importable tasks"
  by (induction tasks) simp_all

lemma handleFileImport_accepts:
  assumes "JSON_parse contents = Some (JArr candidates)" "candidates \<noteq> []"
    "list_all importable_json candidates"
  shows "handleFileImport JSON_parse confirmed (Some contents) tasks =
           (if confirmed then (Done, map properties candidates) else (Cancelled, tasks))"
  using assms every_isValid_iff [of candidates] by (simp add: handleFileImport_def)

lemma handleFileImport_refuses:
  assumes "\<not> acceptable (JSON_parse contents)"
  shows "\<exists>a. handleFileImport JSON_parse confirmed (Some contents) tasks = (Refused a, tasks)"
proof (cases "JSON_parse contents")
  case None
  then show ?thesis by (simp add: handleFileImport_def)
next
  case (Some v)
  show ?thesis
  proof (cases v)
    case (JArr candidates)
    show ?thesis
    proof (cases "candidates = []")
      case True
      with Some JArr show ?thesis by (simp add: handleFileImport_def)
    next
      case False
      with assms Some JArr have "every_isValid candidates \<noteq> Inr True"
        by (simp add: acceptable_def every_isValid_iff)
      with Some JArr False show ?thesis
        by (cases "every_isValid candidates") (auto simp: handleFileImport_def)
    qed
  qed (use Some in \<open>simp_all add: handleFileImport_def\<close>)
qed

text \<open>
  Claim C4. \<^verbatim>\<open>handleFileImport\<close> accepts the text of a file exactly when it parses to a
  non-empty array whose elements are all objects with a truthy id, a truthy name, a
  numeric target and a numeric current. Then, once the user confirms, the array becomes
  the parsed list as it is, with no check of \<open>current \<le> target\<close>; if the user declines,
  the array stays. In every other case, a single bad record included, an alert is shown
  and the array stays as it was.
\<close>

theorem handleFileImport_all_or_nothing:
  "(acceptable (JSON_parse contents) \<longrightarrow>
      (\<exists>candidates. JSON_parse contents = Some (JArr candidates) \<and>
         handleFileImport JSON_parse True (Some contents) tasks
           = (Done, map properties candidates) \<and>
         map JObj (map properties candidates) = candidates \<and>
         handleFileImport JSON_parse False (Some contents) tasks = (Cancelled, tasks))) \<and>
   (\<not> acceptable (JSON_parse contents) \<longrightarrow>
      (\<exists>a. handleFileImport JSON_parse confirmed (Some contents) tasks = (Refused a, tasks)))"
proof (intro conjI impI)
  assume "acceptable (JSON_parse contents)"
  then obtain candidates where c: "JSON_parse contents = Some (JArr candidates)"
    "candidates \<noteq> []" "list_all importable_json candidates"
    by (auto simp: acceptable_def split: option.splits json.splits)
  from handleFileImport_accepts [of JSON_parse contents candidates True tasks]
    handleFileImport_accepts [of JSON_parse contents candidates False tasks]
    properties_of_importable [OF c(3)] c
  show "\<exists>candidates. JSON_parse contents = Some (JArr candidates) \<and>
         handleFileImport JSON_parse True (Some contents) tasks
           = (Done, map properties candidates) \<and>
         map JObj (map properties candidates) = candidates \<and>
         handleFileImport JSON_parse False (Some contents) tasks = (Cancelled, tasks)"
    by simp
next
  assume "\<not> acceptable (JSON_parse contents)"
  then show "\<exists>a. handleFileImport JSON_parse confirmed (Some contents) tasks = (Refused a, tasks)"
    by (rule handleFileImport_refuses)
qed

text \<open>The parser of the witness reads two texts: one record with \<open>current > target\<close>, and
  that record followed by one whose target is a string.\<close>

theorem handleFileImport_all_or_nothing_witness:
  "(let JSON_parse = (\<lambda>s.
       if s = ''[{\"id\":1,\"name\":\"A\",\"target\":5,\"current\":9}]''
       then Some (JArr [JObj [(''id'', JNum 1), (''name'', JStr ''A''), (''target'', JNum 5),
                             (''current'', JNum 9)]])
       else if s = ''[{\"id\":1,\"name\":\"A\",\"target\":5,\"current\":9},{\"id\":2,\"name\":\"B\",\"target\":\"5\",\"current\":0}]''
       then Some (JArr [JObj [(''id'', JNum 1), (''name'', JStr ''A''), (''target'', JNum 5),
                             (''current'', JNum 9)],
                        JObj [(''id'', JNum 2), (''name'', JStr ''B''), (''target'', JStr ''5''),
                             (''current'', JNum 0)]])
       else None)
    in handleFileImport JSON_parse True
         (Some ''[{\"id\":1,\"name\":\"A\",\"target\":5,\"current\":9}]'') [[(''id'', JNum 7)]]
         = (Done, [[(''id'', JNum 1), (''name'', JStr ''A''), (''target'', JNum 5),
                    (''current'', JNum 9)]]) \<and>
       handleFileImport JSON_parse False
         (Some ''[{\"id\":1,\"name\":\"A\",\"target\":5,\"current\":9}]'') [[(''id'', JNum 7)]]
         = (Cancelled, [[(''id'', JNum 7)]]) \<and>
       (\<exists>a. handleFileImport JSON_parse True
         (Some ''[{\"id\":1,\"name\":\"A\",\"target\":5,\"current\":9},{\"id\":2,\"name\":\"B\",\"target\":\"5\",\"current\":0}]'')
         [[(''id'', JNum 7)]] = (Refused a, [[(''id'', JNum 7)]])) \<and>
       (\<exists>a. handleFileImport JSON_parse True (Some ''{'') [[(''id'', JNum 7)]]
         = (Refused a, [[(''id'', JNum 7)]])))"
proof -
  let ?P = "\<lambda>s.
       if s = ''[{\"id\":1,\"name\":\"A\",\"target\":5,\"current\":9}]''
       then Some (JArr [JObj [(''id'', JNum 1), (''name'', JStr ''A''), (''target'', JNum 5),
                             (''current'', JNum 9)]])
       else if s = ''[{\"id\":1,\"name\":\"A\",\"target\":5,\"current\":9},{\"id\":2,\"name\":\"B\",\"target\":\"5\",\"current\":0}]''
       then Some (JArr [JObj [(''id'', JNum 1), (''name'', JStr ''A''), (''target'', JNum 5),
                             (''current'', JNum 9)],
                        JObj [(''id'', JNum 2), (''name'', JStr ''B''), (''target'', JStr ''5''),
                             (''current'', JNum 0)]])
       else None"
  have ok: "acceptable (?P ''[{\"id\":1,\"name\":\"A\",\"target\":5,\"current\":9}]'')"
    by (simp add: acceptable_def importable_def get_prop_def)
  have bad: "\<not> acceptable (?P ''[{\"id\":1,\"name\":\"A\",\"target\":5,\"current\":9},{\"id\":2,\"name\":\"B\",\"target\":\"5\",\"current\":0}]'')"
    by (simp add: acceptable_def importable_def get_prop_def)
  have worse: "\<not> acceptable (?P ''{'')"
    by (simp add: acceptable_def)
  from handleFileImport_all_or_nothing
         [of ?P "''[{\"id\":1,\"name\":\"A\",\"target\":5,\"current\":9}]''" "[[(''id'', JNum 7)]]"] ok
  have 1: "handleFileImport ?P True
         (Some ''[{\"id\":1,\"name\":\"A\",\"target\":5,\"current\":9}]'') [[(''id'', JNum 7)]]
         = (Done, [[(''id'', JNum 1), (''name'', JStr ''A''), (''target'', JNum 5),
                    (''current'', JNum 9)]])"
    and 2: "handleFileImport ?P False
         (Some ''[{\"id\":1,\"name\":\"A\",\"target\":5,\"current\":9}]'') [[(''id'', JNum 7)]]
         = (Cancelled, [[(''id'', JNum 7)]])"
    by auto
  from handleFileImport_all_or_nothing
         [of ?P "''[{\"id\":1,\"name\":\"A\",\"target\":5,\"current\":9},{\"id\":2,\"name\":\"B\",\"target\":\"5\",\"current\":0}]''" "[[(''id'', JNum 7)]]" True] bad
  have 3: "\<exists>a. handleFileImport ?P True
         (Some ''[{\"id\":1,\"name\":\"A\",\"target\":5,\"current\":9},{\"id\":2,\"name\":\"B\",\"target\":\"5\",\"current\":0}]'')
         [[(''id'', JNum 7)]] = (Refused a, [[(''id'', JNum 7)]])"
    by blast
  from handleFileImport_all_or_nothing [of ?P "''{''" "[[(''id'', JNum 7)]]" True] worse
  have 4: "\<exists>a. handleFileImport ?P True (Some ''{'') [[(''id'', JNum 7)]]
         = (Refused a, [[(''id'', JNum 7)]])"
    by blast
  from 1 2 3 4 show ?thesis unfolding Let_def by blast
qed

text \<open>
  Claim C5, as amended. Let the platform read the text it writes for the array back as
  the same array. Then exporting a non-empty array whose records all have a truthy id, a
  truthy name, a numeric target and a numeric current, and importing the file with the
  user's confirmation, gives exactly that array, whatever the array was before the import.
  The export of the empty array is refused by the import.
\<close>

theorem export_import_round_trip:
  assumes "JSON_parse (JSON_stringify (JArr (map JObj tasks))) = Some (JArr (map JObj tasks))"
  shows "(tasks \<noteq> [] \<and> list_all importable tasks \<longrightarrow>
           handleFileImport JSON_parse True (Some (exportData JSON_stringify tasks)) before
             = (Done, tasks)) \<and>
         (tasks = [] \<longrightarrow>
           handleFileImport JSON_parse True (Some (exportData JSON_stringify tasks)) before
             = (Refused NoValidTasks, before))"
proof (intro conjI impI)
  assume a: "tasks \<noteq> [] \<and> list_all importable tasks"
  have p: "JSON_parse (exportData JSON_stringify tasks) = Some (JArr (map JObj tasks))"
    using assms by (simp add: exportData_def)
  have "map properties (map JObj tasks) = tasks"
    by (induction tasks) simp_all
  with handleFileImport_accepts
         [of JSON_parse "exportData JSON_stringify tasks" "map JObj tasks" True before] a p
  show "handleFileImport JSON_parse True (Some (exportData JSON_stringify tasks)) before
          = (Done, tasks)"
    by (simp add: importable_json_JObj)
next
  assume "tasks = []"
  with assms
  show "handleFileImport JSON_parse True (Some (exportData JSON_stringify tasks)) before
          = (Refused NoValidTasks, before)"
    by (simp add: handleFileImport_def exportData_def)
qed

theorem export_import_round_trip_witness:
  "(let JSON_stringify = (\<lambda>v.
       if v = JArr [JObj [(''id'', JNum 1), (''name'', JStr ''A''), (''target'', JNum 5),
                         (''current'', JNum 2)]]
       then ''[{\"id\":1,\"name\":\"A\",\"target\":5,\"current\":2}]'' else ''[]'');
        JSON_parse = (\<lambda>s.
       if s = ''[{\"id\":1,\"name\":\"A\",\"target\":5,\"current\":2}]''
       then Some (JArr [JObj [(''id'', JNum 1), (''name'', JStr ''A''), (''target'', JNum 5),
                             (''current'', JNum 2)]])
       else if s = ''[]'' then Some (JArr []) else None)
    in handleFileImport JSON_parse True
         (Some (exportData JSON_stringify
            [[(''id'', JNum 1), (''name'', JStr ''A''), (''target'', JNum 5),
              (''current'', JNum 2)]])) []
       = (Done, [[(''id'', JNum 1), (''name'', JStr ''A''), (''target'', JNum 5),
                  (''current'', JNum 2)]]))"
proof -
  let ?S = "\<lambda>v.
       if v = JArr [JObj [(''id'', JNum 1), (''name'', JStr ''A''), (''target'', JNum 5),
                         (''current'', JNum 2)]]
       then ''[{\"id\":1,\"name\":\"A\",\"target\":5,\"current\":2}]'' else ''[]''"
  let ?P = "\<lambda>s.
       if s = ''[{\"id\":1,\"name\":\"A\",\"target\":5,\"current\":2}]''
       then Some (JArr [JObj [(''id'', JNum 1), (''name'', JStr ''A''), (''target'', JNum 5),
                             (''current'', JNum 2)]])
       else if s = ''[]'' then Some (JArr []) else None"
  let ?T = "[[(''id'', JNum 1), (''name'', JStr ''A''), (''target'', JNum 5),
              (''current'', JNum 2)]]"
  have law: "?P (?S (JArr (map JObj ?T))) = Some (JArr (map JObj ?T))"
    by simp
  have ok: "?T \<noteq> [] \<and> list_all importable ?T"
    by (simp add: importable_def get_prop_def)
  from export_import_round_trip [of ?P ?S ?T "[]", OF law] ok
  have "handleFileImport ?P True (Some (exportData ?S ?T)) [] = (Done, ?T)"
    by blast
  then show ?thesis unfolding Let_def .
qed

text \<open>The claim as stated fails at the empty array: its export \<^verbatim>\<open>[]\<close> reads back as the
  empty array, which the import refuses, so a session holding other records keeps them.\<close>

theorem empty_export_refused:
  "handleFileImport (\<lambda>s. if s = ''[]'' then Some (JArr []) else None) True
     (Some (exportData (\<lambda>v. if v = JArr [] then ''[]'' else ''?'') []))
     [[(''id'', JNum 1), (''name'', JStr ''A''), (''target'', JNum 5), (''current'', JNum 2)]]
   = (Refused NoValidTasks,
      [[(''id'', JNum 1), (''name'', JStr ''A''), (''target'', JNum 5), (''current'', JNum 2)]])"
  by (simp add: handleFileImport_def exportData_def)

subsection \<open>Reordering\<close>










subsection \<open>The ids that addTask issues\<close>

lemma addTask_result:
  "addTask nameField targetField dateNow createdAt lastModified tasks = (out, tasks') \<Longrightarrow>
     (out = Done \<and> pushed_id tasks' = [dateNow]) \<or> (out \<noteq> Done \<and> tasks' = tasks)"
  by (cases "parseInt targetField")
     (auto simp: addTask_def pushed_id_def get_prop_def Let_def split: if_splits)

lemma session_issued_sorted:
  assumes "sorted_wrt (<) issued" "sorted_wrt (<) (clock_readings events)"
    "\<forall>a\<in>set issued. \<forall>b\<in>set (clock_readings events). a < b"
  shows "sorted_wrt (<) (snd (session events tasks issued))"
  using assms
proof (induction events arbitrary: tasks issued)
  case Nil
  then show ?case by simp
next
  case (Cons e events)
  show ?case
  proof (cases e)
    case (Create nameField targetField dateNow createdAt lastModified)
    obtain out tasks' where r:
      "addTask nameField targetField dateNow createdAt lastModified tasks = (out, tasks')"
      by (cases "addTask nameField targetField dateNow createdAt lastModified tasks") auto
    from Cons.prems Create have rest: "sorted_wrt (<) (clock_readings events)"
      and later: "\<forall>b\<in>set (clock_readings events). dateNow < b"
      and before: "\<forall>a\<in>set issued. a < dateNow"
      and old: "\<forall>a\<in>set issued. \<forall>b\<in>set (clock_readings events). a < b"
      by auto
    from addTask_result [OF r] show ?thesis
    proof
      assume d: "out = Done \<and> pushed_id tasks' = [dateNow]"
      have s1: "sorted_wrt (<) (issued @ [dateNow])"
        using Cons.prems(1) before by (simp add: sorted_wrt_append)
      have s2: "\<forall>a\<in>set (issued @ [dateNow]). \<forall>b\<in>set (clock_readings events). a < b"
        using old later by auto
      have "sorted_wrt (<) (snd (session events tasks' (issued @ [dateNow])))"
        using s1 rest s2 by (rule Cons.IH)
      with Create r d show ?thesis by simp
    next
      assume d: "out \<noteq> Done \<and> tasks' = tasks"
      have "sorted_wrt (<) (snd (session events tasks issued))"
        using Cons.prems(1) rest old by (rule Cons.IH)
      with Create r d show ?thesis by (cases out) simp_all
    qed
  next
    case (Delete confirmed taskId)
    with Cons.prems have "sorted_wrt (<) (clock_readings events)"
      "\<forall>a\<in>set issued. \<forall>b\<in>set (clock_readings events). a < b"
      by auto
    with Cons.prems(1)
    have "sorted_wrt (<) (snd (session events (snd (deleteTask confirmed taskId tasks)) issued))"
      by (rule Cons.IH)
    with Delete show ?thesis by simp
  qed
qed

lemma strictly_sorted_distinct: "sorted_wrt (<) (xs :: int list) \<Longrightarrow> distinct xs"
  by (induction xs) auto

text \<open>
  Claim C7, as amended. The id that \<^verbatim>\<open>addTask\<close> issues is the reading of \<^verbatim>\<open>Date.now()\<close>
  at the creation. So in a session of creations and deletions in which the clock reading
  of each creation is strictly greater than that of every earlier creation, the ids
  issued are strictly increasing, hence all different: a creation after a deletion does
  not issue the id of the deleted record again.
\<close>

theorem issued_ids_follow_the_clock:
  assumes "sorted_wrt (<) (clock_readings events)"
  shows "sorted_wrt (<) (snd (session events tasks [])) \<and>
         distinct (snd (session events tasks []))"
proof -
  have "sorted_wrt (<) (snd (session events tasks []))"
    using assms by (intro session_issued_sorted) simp_all
  then show ?thesis by (simp add: strictly_sorted_distinct)
qed

theorem issued_ids_follow_the_clock_witness:
  "sorted_wrt (<)
     (clock_readings [Create ''a'' ''1'' 5 ''c'' ''m'', Delete True 5, Create ''b'' ''1'' 6 ''c'' ''m'']) \<and>
   session [Create ''a'' ''1'' 5 ''c'' ''m'', Delete True 5, Create ''b'' ''1'' 6 ''c'' ''m''] [] []
     = ([[(''id'', JNum 6), (''name'', JStr ''b''), (''target'', JNum 1), (''current'', JNum 0),
          (''createdAt'', JStr ''c''), (''lastModified'', JStr ''m'')]], [5, 6]) \<and>
   sorted_wrt (<)
     (snd (session [Create ''a'' ''1'' 5 ''c'' ''m'', Delete True 5, Create ''b'' ''1'' 6 ''c'' ''m'']
             [] [])) \<and>
   distinct
     (snd (session [Create ''a'' ''1'' 5 ''c'' ''m'', Delete True 5, Create ''b'' ''1'' 6 ''c'' ''m'']
             [] []))"
proof -
  have c: "sorted_wrt (<)
     (clock_readings [Create ''a'' ''1'' 5 ''c'' ''m'', Delete True 5, Create ''b'' ''1'' 6 ''c'' ''m''])"
    by simp
  have s: "session [Create ''a'' ''1'' 5 ''c'' ''m'', Delete True 5, Create ''b'' ''1'' 6 ''c'' ''m''] [] []
     = ([[(''id'', JNum 6), (''name'', JStr ''b''), (''target'', JNum 1), (''current'', JNum 0),
          (''createdAt'', JStr ''c''), (''lastModified'', JStr ''m'')]], [5, 6])"
    by (simp add: addTask_def deleteTask_def pushed_id_def has_id_def get_prop_def builtins)
  from issued_ids_follow_the_clock [OF c, of "[]"] c s show ?thesis by blast
qed

text \<open>The claim as stated fails when the clock reads the same at two creations: a record
  is created at reading 5 and deleted, and the next creation at reading 5 issues the id 5
  again.\<close>

theorem id_issued_twice:
  "session [Create ''a'' ''1'' 5 ''c'' ''m'', Delete True 5, Create ''b'' ''1'' 5 ''c'' ''m''] [] []
     = ([[(''id'', JNum 5), (''name'', JStr ''b''), (''target'', JNum 1), (''current'', JNum 0),
          (''createdAt'', JStr ''c''), (''lastModified'', JStr ''m'')]], [5, 5])"
  by (simp add: addTask_def deleteTask_def pushed_id_def has_id_def get_prop_def builtins)

subsection \<open>Loading\<close>

lemma loadTasks_recovers:
  "JSON_parse s = None \<Longrightarrow> s \<noteq> [] \<Longrightarrow> loadTasks JSON_parse (Some s) tasks = JArr []"
  by (simp add: loadTasks_def)

lemma page_load_no_snapshot:
  "JSON_parse ''null'' = Some JNull \<Longrightarrow> page_load JSON_parse None = Inr (JArr [])"
  by (simp add: page_load_def initial_tasks_def loadTasks_def)

text \<open>
  Claim C9, where the script departs from it. When the stored text does not parse, the
  script ends on line 4 with an uncaught SyntaxError: the \<^verbatim>\<open>catch\<close> of \<^verbatim>\<open>loadTasks\<close>,
  which would reset the array to empty, is never reached.
\<close>

theorem page_load_malformed:
  assumes "JSON_parse s = None"
  shows "page_load JSON_parse (Some s) = Inl SyntaxError"
  using assms by (simp add: page_load_def initial_tasks_def)

theorem page_load_malformed_witness:
  "page_load (\<lambda>s. if s = ''null'' then Some JNull else if s = ''[]'' then Some (JArr []) else None)
     (Some ''{'') = Inl SyntaxError \<and>
   loadTasks (\<lambda>s. if s = ''null'' then Some JNull else if s = ''[]'' then Some (JArr []) else None)
     (Some ''{'') (JArr [JObj [(''id'', JNum 1)]]) = JArr [] \<and>
   page_load (\<lambda>s. if s = ''null'' then Some JNull else if s = ''[]'' then Some (JArr []) else None)
     None = Inr (JArr [])"
  using page_load_malformed
    [of "\<lambda>s. if s = ''null'' then Some JNull else if s = ''[]'' then Some (JArr []) else None" "''{''"]
  by (simp add: loadTasks_recovers page_load_no_snapshot)

end
